theory Spec2Isabelle
  imports Main "HOL-Library.Sublist"
begin

section \<open>Go values used by the agent and the server\<close>

text \<open>
  A Go \<^verbatim>\<open>error\<close> is an interface value compared by identity. The package-level
  sentinels of the sources are constructors of their own; every error built on the spot
  by \<^verbatim>\<open>fmt.Errorf\<close> is \<open>Errorf\<close> with its message, so that an ad-hoc error with the
  text "pod not found" is still different from the sentinel \<open>PodNotFound\<close>.
\<close>

datatype error =
    PodNotFound
  | PodNotFoundError
  | ErrPodNotFound
  | ErrPolicyForbidden
  | Errorf string

fun Error :: "error \<Rightarrow> string" where
  "Error PodNotFound = ''pod not found''"
| "Error PodNotFoundError = ''pod not found''"
| "Error ErrPodNotFound = ''no pod found''"
| "Error ErrPolicyForbidden = ''forbidden by policy''"
| "Error (Errorf msg) = msg"

text \<open>The HTTP status codes the handlers return (constants of \<^verbatim>\<open>net/http\<close>).\<close>

definition StatusOK :: nat where "StatusOK = 200"
definition StatusBadRequest :: nat where "StatusBadRequest = 400"
definition StatusForbidden :: nat where "StatusForbidden = 403"
definition StatusNotFound :: nat where "StatusNotFound = 404"
definition StatusInternalServerError :: nat where "StatusInternalServerError = 500"

section \<open>Client address parsing\<close>

text \<open>
  \<^verbatim>\<open>strings.Split(s, sep)\<close> for a one-byte separator: the pieces between the
  occurrences of \<open>sep\<close>, one more piece than there are occurrences, so that a string
  without the separator gives the one-element list holding the string itself.
\<close>

fun strings_Split :: "string \<Rightarrow> char \<Rightarrow> string list" where
  "strings_Split [] sep = [[]]"
| "strings_Split (c # cs) sep =
     (if c = sep then [] # strings_Split cs sep
      else (case strings_Split cs sep of
              [] \<Rightarrow> [[c]]
            | p # ps \<Rightarrow> (c # p) # ps))"

text \<open>\<^verbatim>\<open>strings.Join(parts, sep)\<close>.\<close>

fun strings_Join :: "string list \<Rightarrow> string \<Rightarrow> string" where
  "strings_Join [] sep = []"
| "strings_Join [p] sep = p"
| "strings_Join (p # q # ps) sep = p @ sep @ strings_Join (q # ps) sep"

text \<open>
  \<^verbatim>\<open>ParseClientIP\<close> returns Go's pair of a string and an error; on the error path the
  string is empty, as in the source.
\<close>

definition ParseClientIP :: "string \<Rightarrow> string \<times> error option" where
  "ParseClientIP addr =
     (let parts = strings_Split addr CHR '':'' in
      if length parts < 2
      then ('''', Some (Errorf (''incorrect format, expected ip:port, was: '' @ addr)))
      else (strings_Join (take (length parts - 1) parts) '':'', None))"

section \<open>HTTP requests and response writers\<close>

text \<open>
  What the handlers read of a \<^verbatim>\<open>*http.Request\<close>: the peer address, the query of the
  URL, the parsed form (\<open>None\<close> is Go's nil map, before \<^verbatim>\<open>ParseForm\<close>) and the
  variables the router extracted from the path.
\<close>

record Request =
  RemoteAddr :: string
  URLQuery :: "(string \<times> string list) list"
  Form :: "(string \<times> string list) list option"
  Vars :: "(string \<times> string) list"

text \<open>\<^verbatim>\<open>req.ParseForm()\<close> of a GET request: fills the form from the query once.\<close>

definition ParseForm :: "Request \<Rightarrow> Request" where
  "ParseForm req =
     (case Form req of
        None \<Rightarrow> req\<lparr>Form := Some (URLQuery req)\<rparr>
      | Some f \<Rightarrow> req)"

text \<open>\<^verbatim>\<open>url.Values.Get\<close>: the first value of the key, the empty string when there is
  none or the map is nil.\<close>

definition Values_Get :: "(string \<times> string list) list option \<Rightarrow> string \<Rightarrow> string" where
  "Values_Get v key =
     (case v of
        None \<Rightarrow> ''''
      | Some m \<Rightarrow>
          (case map_of m key of
             None \<Rightarrow> ''''
           | Some [] \<Rightarrow> ''''
           | Some (x # xs) \<Rightarrow> x))"

text \<open>\<^verbatim>\<open>mux.Vars(req)[key]\<close>: a Go map read, the empty string for a missing key.\<close>

definition mux_Vars :: "Request \<Rightarrow> string \<Rightarrow> string" where
  "mux_Vars req key = (case map_of (Vars req) key of None \<Rightarrow> '''' | Some v \<Rightarrow> v)"

text \<open>
  The \<^verbatim>\<open>http.ResponseWriter\<close> of a \<^verbatim>\<open>net/http\<close> server. \<open>header\<close> is the map
  \<^verbatim>\<open>w.Header()\<close> hands out; the status line and the headers are committed once, by
  \<^verbatim>\<open>WriteHeader\<close> or by the first \<^verbatim>\<open>Write\<close> (which implies status 200), and
  \<open>sentHeader\<close> is the copy of the map taken at that moment: the documentation of
  \<^verbatim>\<open>ResponseWriter.Header\<close> says that changing the map after \<^verbatim>\<open>WriteHeader\<close> or
  \<^verbatim>\<open>Write\<close> has no effect on the response. \<open>writeErr\<close> is the error a write to the
  connection returns, if the connection is broken.
\<close>

record ResponseWriter =
  header :: "string \<rightharpoonup> string"
  wroteHeader :: bool
  status :: nat
  sentHeader :: "string \<rightharpoonup> string"
  body :: string
  writeErr :: "error option"

definition newResponseWriter :: ResponseWriter where
  "newResponseWriter =
     \<lparr>header = Map.empty, wroteHeader = False, status = 0, sentHeader = Map.empty,
      body = [], writeErr = None\<rparr>"

definition Header_Set :: "ResponseWriter \<Rightarrow> string \<Rightarrow> string \<Rightarrow> ResponseWriter" where
  "Header_Set w key val = w\<lparr>header := (header w)(key \<mapsto> val)\<rparr>"

definition WriteHeader :: "ResponseWriter \<Rightarrow> nat \<Rightarrow> ResponseWriter" where
  "WriteHeader w code =
     (if wroteHeader w then w
      else w\<lparr>wroteHeader := True, status := code, sentHeader := header w\<rparr>)"

definition Write :: "ResponseWriter \<Rightarrow> string \<Rightarrow> ResponseWriter \<times> error option" where
  "Write w data =
     (let w1 = (if wroteHeader w then w else WriteHeader w StatusOK) in
      case writeErr w1 of
        Some e \<Rightarrow> (w1, Some e)
      | None \<Rightarrow> (w1\<lparr>body := body w1 @ data\<rparr>, None))"

text \<open>\<^verbatim>\<open>http.Error(w, msg, code)\<close>: a plain-text reply, the message on a line.\<close>

definition http_Error :: "ResponseWriter \<Rightarrow> string \<Rightarrow> nat \<Rightarrow> ResponseWriter" where
  "http_Error w msg code =
     (let w1 = Header_Set w ''Content-Type'' ''text/plain; charset=utf-8'';
          w2 = Header_Set w1 ''X-Content-Type-Options'' ''nosniff'';
          w3 = WriteHeader w2 code
      in fst (Write w3 (msg @ ''\<newline>'')))"

text \<open>
  The credential record. Its seven string fields are the ones
  \<^verbatim>\<open>translateCredentialsToProto\<close> copies; the handler's test fixes their JSON names and
  order. \<^verbatim>\<open>json.NewEncoder(w).Encode(c)\<close> writes the object and a newline in one
  \<^verbatim>\<open>Write\<close>. How \<^verbatim>\<open>encoding/json\<close> renders a Go string as a JSON string literal
  (quotes and escapes) is the parameter \<open>q\<close>.
\<close>

record Credentials =
  Code :: string
  Type :: string
  AccessKeyId :: string
  SecretAccessKey :: string
  Token :: string
  Expiration :: string
  LastUpdated :: string

definition json_Marshal :: "(string \<Rightarrow> string) \<Rightarrow> Credentials \<Rightarrow> string" where
  \<open>json_Marshal q c =
     ''{"Code":'' @ q (Code c) @
     '',"Type":'' @ q (Type c) @
     '',"AccessKeyId":'' @ q (AccessKeyId c) @
     '',"SecretAccessKey":'' @ q (SecretAccessKey c) @
     '',"Token":'' @ q (Token c) @
     '',"Expiration":'' @ q (Expiration c) @
     '',"LastUpdated":'' @ q (LastUpdated c) @ ''}''\<close>

definition Encode ::
  "(string \<Rightarrow> string) \<Rightarrow> ResponseWriter \<Rightarrow> Credentials \<Rightarrow> ResponseWriter \<times> error option" where
  "Encode q w c = Write w (json_Marshal q c @ ''\<newline>'')"

section \<open>The agent: configuration and client address\<close>

text \<open>\<open>MaxElapsedTime\<close> is a \<^verbatim>\<open>time.Duration\<close>, a count of nanoseconds.\<close>

record ServerConfig =
  ListenPort :: int
  MetadataEndpoint :: string
  AllowIPQuery :: bool
  MaxElapsedTime :: int

definition NewConfig :: "int \<Rightarrow> ServerConfig" where
  "NewConfig port =
     \<lparr>ListenPort = port,
      MetadataEndpoint = ''http://169.254.169.254'',
      AllowIPQuery = False,
      MaxElapsedTime = 1000000000 * 10\<rparr>"

text \<open>
  The agent. \<open>finder\<close> is \<^verbatim>\<open>s.finder.FindRoleFromIP\<close>: the pod cache behind it changes
  as pod events arrive, so its answer depends on which call it is (the first argument).
\<close>

record Server =
  cfg :: ServerConfig
  finder :: "nat \<Rightarrow> string \<Rightarrow> string \<times> error option"

text \<open>\<^verbatim>\<open>buildClientIP\<close>: the closure the router's handlers are given.\<close>

definition buildClientIP :: "ServerConfig \<Rightarrow> Request \<Rightarrow> string \<times> error option" where
  "buildClientIP config =
     (let remote = (\<lambda>req. ParseClientIP (RemoteAddr req)) in
      if AllowIPQuery config
      then (\<lambda>req. let ip = Values_Get (Form req) ''ip'' in
                  if ip \<noteq> '''' then (ip, None) else remote req)
      else remote)"

text \<open>
  The method \<^verbatim>\<open>Server.clientIP\<close>, which the two handler methods call. Its test of
  \<open>AllowIPQuery\<close> has an empty body, so both ways lead to the same return.
\<close>

definition clientIP :: "Server \<Rightarrow> Request \<Rightarrow> string \<times> error option" where
  "clientIP s req =
     (if AllowIPQuery (cfg s)
      then ParseClientIP (RemoteAddr req)
      else ParseClientIP (RemoteAddr req))"

section \<open>The agent: handlers\<close>

text \<open>
  What a handler does: it returns a status and an error (\<open>None\<close> is nil), or it panics,
  or (the role-name handler only) it waits for ever. Beside that, the state of the
  response writer it leaves, and the roles it asked the credentials provider for.
\<close>

datatype outcome = Returned nat "error option" | Panicked string | Blocked

record handled =
  outcome :: outcome
  writer :: ResponseWriter
  issued :: "string list"

text \<open>
  The helpers \<^verbatim>\<open>findRole(ctx, s.finder, ip)\<close> and
  \<^verbatim>\<open>credentialsForRole(ctx, s.credentials, role)\<close> and the variable
  \<^verbatim>\<open>EmptyRoleError\<close> are declared outside the files at hand; what they return is taken
  as given. \<open>ctxErr\<close> is \<^verbatim>\<open>ctx.Err()\<close> at the moment the credentials handler reads it:
  nil while the context is neither cancelled nor past its deadline.
\<close>

record Env =
  findRole :: "string \<Rightarrow> error + string"
  credentialsForRole :: "string \<Rightarrow> error + Credentials"
  ctxErr :: "error option"
  EmptyRoleError :: error
  jsonString :: "string \<Rightarrow> string"

text \<open>
  \<^verbatim>\<open>Server.credentialsHandler\<close>. Calling \<^verbatim>\<open>Error()\<close> on the nil \<^verbatim>\<open>ctx.Err()\<close> is a
  nil dereference, a run-time panic.
\<close>

definition credentialsHandler ::
  "Server \<Rightarrow> Env \<Rightarrow> ResponseWriter \<Rightarrow> Request \<Rightarrow> handled" where
  "credentialsHandler s env w req0 =
     (let req = ParseForm req0 in
      case clientIP s req of
        (ip, Some e) \<Rightarrow>
          \<lparr>outcome = Returned StatusInternalServerError
              (Some (Errorf (''error parsing client ip '' @ ip @ '': '' @ Error e))),
           writer = w, issued = []\<rparr>
      | (ip, None) \<Rightarrow>
          (case findRole env ip of
             Inl e \<Rightarrow>
               \<lparr>outcome = Returned StatusInternalServerError
                   (Some (Errorf (''error finding pod for ip '' @ ip @ '': '' @ Error e))),
                writer = w, issued = []\<rparr>
           | Inr foundRole \<Rightarrow>
               if foundRole = ''''
               then \<lparr>outcome = Returned StatusNotFound (Some (EmptyRoleError env)),
                     writer = w, issued = []\<rparr>
               else
                 (let requestedRole = mux_Vars req ''role'' in
                  if requestedRole = ''''
                  then \<lparr>outcome = Returned StatusBadRequest (Some (Errorf ''no role specified'')),
                        writer = w, issued = []\<rparr>
                  else if foundRole \<noteq> requestedRole
                  then \<lparr>outcome = Returned StatusForbidden
                          (Some (Errorf (''unable to assume role '' @ requestedRole
                                   @ '', role on pod specified is '' @ foundRole))),
                        writer = w, issued = []\<rparr>
                  else
                    (case credentialsForRole env requestedRole of
                       Inl e \<Rightarrow>
                         (case ctxErr env of
                            None \<Rightarrow>
                              \<lparr>outcome = Panicked
                                  ''invalid memory address or nil pointer dereference'',
                               writer = w, issued = [requestedRole]\<rparr>
                          | Some cerr \<Rightarrow>
                              \<lparr>outcome = Returned StatusInternalServerError
                                  (Some (Errorf (''unexpected error: '' @ Error cerr))),
                               writer = w, issued = [requestedRole]\<rparr>)
                     | Inr credentials \<Rightarrow>
                         (case Encode (jsonString env) w credentials of
                            (w1, Some e) \<Rightarrow>
                              \<lparr>outcome = Returned StatusInternalServerError
                                  (Some (Errorf (''error encoding credentials: '' @ Error e))),
                               writer = w1, issued = [requestedRole]\<rparr>
                          | (w1, None) \<Rightarrow>
                              \<lparr>outcome = Returned StatusOK None,
                               writer = Header_Set w1 ''Content-Type'' ''application/json'',
                               issued = [requestedRole]\<rparr>)))))"

text \<open>
  The role-name handler looks the role up in a goroutine, under \<^verbatim>\<open>backoff.Retry\<close>.
  \<open>op\<close> is the retried closure: call number \<open>k\<close> of the finder, with the buffered
  channel \<open>roleCh\<close> as the list of what has been sent on it.
\<close>

definition op :: "Server \<Rightarrow> string \<Rightarrow> nat \<Rightarrow> string list \<Rightarrow> error option \<times> string list" where
  "op s ip k roleCh =
     (case finder s k ip of
        (role, Some e) \<Rightarrow> (Some e, roleCh)
      | (role, None) \<Rightarrow>
          if role = '''' then (Some PodNotFound, roleCh)
          else (None, roleCh @ [role]))"

text \<open>
  \<^verbatim>\<open>backoff.Retry(operation, b)\<close> calls the operation until it returns nil or the
  back-off policy answers \<^verbatim>\<open>Stop\<close>, and then returns the operation's last error. When
  the policy stops (the elapsed-time budget of the exponential policy, or the request
  context being done) is decided by the clock; here it is the number \<open>n\<close> of further
  attempts the policy grants. \<open>k\<close> counts the calls made so far.
\<close>

fun backoff_Retry ::
  "(nat \<Rightarrow> 'c \<Rightarrow> error option \<times> 'c) \<Rightarrow> nat \<Rightarrow> nat \<Rightarrow> 'c \<Rightarrow> error option \<times> 'c" where
  "backoff_Retry operation 0 k c = operation k c"
| "backoff_Retry operation (Suc n) k c =
     (case operation k c of
        (None, c1) \<Rightarrow> (None, c1)
      | (Some e, c1) \<Rightarrow> backoff_Retry operation n (Suc k) c1)"

text \<open>The message the goroutine sends on \<open>respCh\<close>; \<open>obj\<close> is an \<^verbatim>\<open>interface{}\<close>.\<close>

record asyncObj =
  obj :: "string option"
  err :: "error option"

text \<open>
  The goroutine: \<open>None\<close> when it never sends (it would wait on an empty \<open>roleCh\<close>).
\<close>

definition lookupRole :: "Server \<Rightarrow> string \<Rightarrow> nat \<Rightarrow> asyncObj option" where
  "lookupRole s ip n =
     (case backoff_Retry (op s ip) n 0 [] of
        (Some e, roleCh) \<Rightarrow> Some \<lparr>obj = None, err = Some e\<rparr>
      | (None, roleCh) \<Rightarrow>
          (case roleCh of
             [] \<Rightarrow> None
           | role # rest \<Rightarrow> Some \<lparr>obj = Some role, err = None\<rparr>))"

text \<open>
  What the scheduler and the clock decide for one request: how many further attempts
  the back-off policy grants, and whether the \<^verbatim>\<open>select\<close> takes the branch of the
  request context (\<open>ctxDone = Some e\<close>, with \<open>e\<close> the value of \<^verbatim>\<open>ctx.Err()\<close>) or
  receives the goroutine's message (\<open>ctxDone = None\<close>).
\<close>

record Schedule =
  retries :: nat
  ctxDone :: "error option option"

text \<open>
  \<^verbatim>\<open>Server.roleNameHandler\<close>. The variable \<^verbatim>\<open>err\<close> the handler prints in its
  "error finding pod" message is the one the goroutine assigned before sending, the
  error of the message itself.
\<close>

definition roleNameHandler ::
  "Server \<Rightarrow> Schedule \<Rightarrow> ResponseWriter \<Rightarrow> Request \<Rightarrow> handled" where
  "roleNameHandler s sched w req =
     (case clientIP s req of
        (ip, Some e) \<Rightarrow>
          \<lparr>outcome = Returned StatusInternalServerError
              (Some (Errorf (''error parsing ip: '' @ Error e))),
           writer = w, issued = []\<rparr>
      | (ip, None) \<Rightarrow>
          (case ctxDone sched of
             Some (Some cerr) \<Rightarrow>
               \<lparr>outcome = Returned StatusInternalServerError (Some cerr),
                writer = w, issued = []\<rparr>
           | Some None \<Rightarrow> \<lparr>outcome = Returned StatusOK None, writer = w, issued = []\<rparr>
           | None \<Rightarrow>
               (case lookupRole s ip (retries sched) of
                  None \<Rightarrow> \<lparr>outcome = Blocked, writer = w, issued = []\<rparr>
                | Some resp \<Rightarrow>
                    if err resp = Some PodNotFound
                    then \<lparr>outcome = Returned StatusNotFound
                            (Some (Errorf (''pod not found for ip '' @ ip))),
                          writer = w, issued = []\<rparr>
                    else
                      (case err resp of
                         Some e \<Rightarrow>
                           \<lparr>outcome = Returned StatusInternalServerError
                               (Some (Errorf (''error finding pod: '' @ Error e))),
                            writer = w, issued = []\<rparr>
                       | None \<Rightarrow>
                           (case obj resp of
                              None \<Rightarrow>
                                \<lparr>outcome = Panicked
                                    ''interface conversion: interface {} is nil, not string'',
                                 writer = w, issued = []\<rparr>
                            | Some role \<Rightarrow>
                                if role = ''''
                                then \<lparr>outcome = Returned StatusNotFound
                                        (Some (Errorf (''no role for pod '' @ ip))),
                                      writer = w, issued = []\<rparr>
                                else \<lparr>outcome = Returned StatusOK None,
                                      writer = fst (Write w role), issued = []\<rparr>)))))"

text \<open>
  \<^verbatim>\<open>errorHandler\<close>: runs the handler and, when it returned an error, replies with
  \<^verbatim>\<open>http.Error\<close>. A panic of the handler passes through.
\<close>

definition errorHandler ::
  "(ResponseWriter \<Rightarrow> Request \<Rightarrow> handled) \<Rightarrow> ResponseWriter \<Rightarrow> Request \<Rightarrow> handled" where
  "errorHandler handle w req =
     (let r = handle w req in
      case outcome r of
        Returned code (Some e) \<Rightarrow> r\<lparr>writer := http_Error (writer r) (Error e) code\<rparr>
      | Returned code None \<Rightarrow> r
      | Panicked msg \<Rightarrow> r
      | Blocked \<Rightarrow> r)"

section \<open>The agent: routing\<close>

text \<open>
  The routes \<^verbatim>\<open>buildHTTPServer\<close> registers. A route's pattern either matches the
  whole path, giving the pattern's variables, or does not match.
\<close>

datatype route =
    MetricsRoute
  | PingRoute
  | HealthRoute
  | RoleNameRoute
  | CredentialsRoute
  | ProxyRoute

text \<open>A pattern without variables, such as \<^verbatim>\<open>/ping\<close>.\<close>

definition matchExact :: "string \<Rightarrow> string \<Rightarrow> (string \<times> string) list option" where
  "matchExact pattern path = (if path = pattern then Some [] else None)"

text \<open>
  The common part of the two metadata patterns,
  \<^verbatim>\<open>/{version}/meta-data/iam/security-credentials/\<close>: a path that starts with it is
  split into the version (one non-empty segment, the default pattern of a variable) and
  what follows the last slash of the pattern.
\<close>

definition credentialsPath :: "string \<Rightarrow> (string \<times> string) option" where
  "credentialsPath path =
     (case path of
        [] \<Rightarrow> None
      | c # p \<Rightarrow>
          if c \<noteq> CHR ''/'' then None
          else
            (let version = takeWhile (\<lambda>x. x \<noteq> CHR ''/'') p;
                 rest = dropWhile (\<lambda>x. x \<noteq> CHR ''/'') p
             in if version \<noteq> [] \<and> prefix ''/meta-data/iam/security-credentials/'' rest
                then Some (version, drop (length ''/meta-data/iam/security-credentials/'') rest)
                else None))"

text \<open>\<^verbatim>\<open>/{version}/meta-data/iam/security-credentials/\<close>: nothing after the last slash.\<close>

definition matchRoleName :: "string \<Rightarrow> (string \<times> string) list option" where
  "matchRoleName path =
     (case credentialsPath path of
        None \<Rightarrow> None
      | Some (version, rest) \<Rightarrow> if rest = [] then Some [(''version'', version)] else None)"

text \<open>
  \<^verbatim>\<open>/{version}/meta-data/iam/security-credentials/{role:.*}\<close>: the role is any rest
  without a line break, the empty one included.
\<close>

definition matchCredentials :: "string \<Rightarrow> (string \<times> string) list option" where
  "matchCredentials path =
     (case credentialsPath path of
        None \<Rightarrow> None
      | Some (version, rest) \<Rightarrow>
          if CHR ''\<newline>'' \<notin> set rest
          then Some [(''version'', version), (''role'', rest)]
          else None)"

text \<open>\<^verbatim>\<open>/{path:.*}\<close>, the reverse proxy.\<close>

definition matchProxy :: "string \<Rightarrow> (string \<times> string) list option" where
  "matchProxy path =
     (case path of
        [] \<Rightarrow> None
      | c # p \<Rightarrow>
          if c = CHR ''/'' \<and> CHR ''\<newline>'' \<notin> set p then Some [(''path'', p)] else None)"

text \<open>The routes in the order of their registration.\<close>

definition buildHTTPServer_routes ::
  "(route \<times> (string \<Rightarrow> (string \<times> string) list option)) list" where
  "buildHTTPServer_routes =
     [(MetricsRoute, matchExact ''/metrics''),
      (PingRoute, matchExact ''/ping''),
      (HealthRoute, matchExact ''/health''),
      (RoleNameRoute, matchRoleName),
      (CredentialsRoute, matchCredentials),
      (ProxyRoute, matchProxy)]"

text \<open>The router hands a request to the first route that matches its path.\<close>

fun Router_Match ::
  "(route \<times> (string \<Rightarrow> (string \<times> string) list option)) list \<Rightarrow> string
     \<Rightarrow> (route \<times> (string \<times> string) list) option" where
  "Router_Match [] path = None"
| "Router_Match ((r, pattern) # rs) path =
     (case pattern path of
        Some vars \<Rightarrow> Some (r, vars)
      | None \<Rightarrow> Router_Match rs path)"

section \<open>The server: \<open>GetPodRole\<close>\<close>

text \<open>
  The pod cache and \<^verbatim>\<open>k8s.PodRole\<close> belong to a package that is not at hand; the
  server is given what they answer. The cache changes as pod events arrive, so
  \<open>FindPodForIP\<close> takes the time of the call (a tick per lookup) beside the address.
\<close>

record 'pod KiamServer =
  FindPodForIP :: "nat \<Rightarrow> string \<Rightarrow> 'pod option \<times> error option"
  PodRole :: "'pod \<Rightarrow> string"

record Role =
  Name :: string

text \<open>
  \<^verbatim>\<open>KiamServer.GetPodRole\<close>, called at tick \<open>now\<close>: the reply, and the tick after the
  lookups it made.
\<close>

definition GetPodRole ::
  "'pod KiamServer \<Rightarrow> nat \<Rightarrow> string \<Rightarrow> (Role option \<times> error option) \<times> nat" where
  "GetPodRole k now ip =
     (case FindPodForIP k now ip of
        (pod, Some e) \<Rightarrow> ((None, Some e), Suc now)
      | (None, None) \<Rightarrow> ((None, Some PodNotFoundError), Suc now)
      | (Some pod, None) \<Rightarrow> ((Some \<lparr>Name = PodRole k pod\<rparr>, None), Suc now))"

section \<open>A concrete deployment\<close>

text \<open>
  The deployment of the end-to-end scenarios: one pod with the address \<open>10.0.0.5\<close> and
  the role \<open>reader\<close>, known to the cache from the start; no other address belongs to a
  pod with a role. Requests come from a given peer address and name a given role in
  their path. \<open>quoted\<close> is the JSON literal of a string that needs no escape.
\<close>

definition quoted :: "string \<Rightarrow> string" where
  \<open>quoted s = ''"'' @ s @ ''"''\<close>

definition reader_credentials :: Credentials where
  "reader_credentials =
     \<lparr>Code = ''Success'', Type = ''AWS-HMAC'', AccessKeyId = ''AKIDEXAMPLE'',
      SecretAccessKey = ''secret'', Token = ''token'',
      Expiration = ''2018-01-01T01:00:00Z'', LastUpdated = ''2018-01-01T00:00:00Z''\<rparr>"

definition scenario_agent :: Server where
  "scenario_agent =
     \<lparr>cfg = NewConfig 8181,
      finder = (\<lambda>k ip. if ip = ''10.0.0.5'' then (''reader'', None) else ('''', None))\<rparr>"

definition scenario_env :: Env where
  "scenario_env =
     \<lparr>findRole = (\<lambda>ip. if ip = ''10.0.0.5'' then Inr ''reader'' else Inr ''''),
      credentialsForRole = (\<lambda>role. Inr reader_credentials),
      ctxErr = None,
      EmptyRoleError = Errorf ''empty role'',
      jsonString = quoted\<rparr>"

definition scenario_request :: "string \<Rightarrow> string \<Rightarrow> Request" where
  "scenario_request addr role =
     \<lparr>RemoteAddr = addr, URLQuery = [], Form = None,
      Vars = [(''version'', ''latest''), (''role'', role)]\<rparr>"

text \<open>
  The same agent with \<open>AllowIPQuery\<close> switched on, and a request from the loopback
  address that names the pod's address in its \<open>ip\<close> query parameter.
\<close>

definition debug_agent :: Server where
  "debug_agent = scenario_agent\<lparr>cfg := (NewConfig 8181)\<lparr>AllowIPQuery := True\<rparr>\<rparr>"

definition ip_query_request :: Request where
  "ip_query_request =
     \<lparr>RemoteAddr = ''127.0.0.1:51000'', URLQuery = [(''ip'', [''10.0.0.5''])], Form = None,
      Vars = [(''version'', ''latest''), (''role'', ''reader'')]\<rparr>"

text \<open>
  A provider that refuses to issue, while the request's context is still live.
\<close>

definition refusing_env :: Env where
  "refusing_env =
     scenario_env\<lparr>credentialsForRole := (\<lambda>role. Inl (Errorf ''AccessDenied''))\<rparr>"

text \<open>
  A server whose cache learns of the pod at \<open>10.0.0.5\<close> one tick after the first
  lookup; a pod is written as its name and its role.
\<close>

definition late_cache :: "(string \<times> string) KiamServer" where
  "late_cache =
     \<lparr>FindPodForIP = (\<lambda>now ip. if 0 < now \<and> ip = ''10.0.0.5''
                                then (Some (''p1'', ''reader''), None) else (None, None)),
      PodRole = snd\<rparr>"

text \<open>An agent whose finder learns of the same pod after its first two calls.\<close>

definition late_agent :: Server where
  "late_agent =
     \<lparr>cfg = NewConfig 8181,
      finder = (\<lambda>k ip. if 2 \<le> k \<and> ip = ''10.0.0.5'' then (''reader'', None) else ('''', None))\<rparr>"

section \<open>Properties of the address parser\<close>

lemma Split_nonempty: "strings_Split s c \<noteq> []"
  by (induction s) (auto split: list.splits)

lemma Split_length: "length (strings_Split s c) = Suc (count_list s c)"
  by (induction s) (auto split: list.splits simp: Split_nonempty)

lemma Split_parts_free: "p \<in> set (strings_Split s c) \<Longrightarrow> c \<notin> set p"
  by (induction s arbitrary: p) (auto split: list.splits if_splits)

lemma Join_Split: "strings_Join (strings_Split s c) [c] = s"
proof (induction s)
  case Nil
  show ?case by simp
next
  case (Cons x xs)
  obtain p ps where ps: "strings_Split xs c = p # ps"
    using Split_nonempty [of xs c] by (cases "strings_Split xs c") auto
  show ?case
  proof (cases "x = c")
    case True
    with Cons ps show ?thesis by simp
  next
    case False
    with Cons ps show ?thesis by (cases ps) auto
  qed
qed

lemma Join_snoc:
  "xs \<noteq> [] \<Longrightarrow> strings_Join (xs @ [y]) sep = strings_Join xs sep @ sep @ y"
  by (induction xs sep rule: strings_Join.induct) auto

lemma Split_one_iff: "length (strings_Split s c) < 2 \<longleftrightarrow> c \<notin> set s"
  by (simp add: Split_length count_list_0_iff less_Suc_eq)

lemma Split_last_decomp:
  assumes "c \<in> set s"
  shows "s = strings_Join (butlast (strings_Split s c)) [c] @ c # last (strings_Split s c)
         \<and> c \<notin> set (last (strings_Split s c))"
proof -
  let ?parts = "strings_Split s c"
  have ne: "?parts \<noteq> []" by (rule Split_nonempty)
  have "\<not> length ?parts < 2" using assms by (simp add: Split_one_iff)
  then have bl: "butlast ?parts \<noteq> []" using ne by (cases ?parts) auto
  have "s = strings_Join (butlast ?parts @ [last ?parts]) [c]"
    using ne by (simp add: Join_Split)
  also have "\<dots> = strings_Join (butlast ?parts) [c] @ [c] @ last ?parts"
    using bl by (rule Join_snoc)
  finally have "s = strings_Join (butlast ?parts) [c] @ c # last ?parts" by simp
  moreover have "c \<notin> set (last ?parts)"
    using ne by (intro Split_parts_free [of _ s c]) simp
  ultimately show ?thesis by blast
qed

lemma ParseClientIP_no_colon:
  "CHR '':'' \<notin> set addr \<Longrightarrow>
   ParseClientIP addr =
     ('''', Some (Errorf (''incorrect format, expected ip:port, was: '' @ addr)))"
  using Split_one_iff [of addr "CHR '':''"] by (simp add: ParseClientIP_def Let_def)

lemma ParseClientIP_colon:
  assumes "CHR '':'' \<in> set addr"
  shows "\<exists>ip port. ParseClientIP addr = (ip, None) \<and> addr = ip @ '':'' @ port
           \<and> CHR '':'' \<notin> set port"
proof -
  let ?parts = "strings_Split addr CHR '':''"
  from assms have "\<not> length ?parts < 2" by (simp add: Split_one_iff)
  then have "ParseClientIP addr = (strings_Join (butlast ?parts) '':'', None)"
    by (simp add: ParseClientIP_def Let_def butlast_conv_take)
  with Split_last_decomp [OF assms] show ?thesis
    by (intro exI [of _ "strings_Join (butlast ?parts) '':''"] exI [of _ "last ?parts"]) simp
qed

text \<open>
  Claim C10. \<^verbatim>\<open>ParseClientIP(addr)\<close> returns an error exactly when \<open>addr\<close> holds no
  colon. For every \<open>addr\<close> with at least one colon it returns, with no error, the part
  of \<open>addr\<close> before its last colon (what follows that colon holds no colon), interior
  colons kept: \<open>a:b:c:80\<close> gives \<open>a:b:c\<close>, \<open>[::1]:80\<close> gives \<open>[::1]\<close>, and \<open>:80\<close> gives
  the empty string without an error.
\<close>

theorem ParseClientIP_last_colon:
  "(snd (ParseClientIP addr) \<noteq> None \<longleftrightarrow> CHR '':'' \<notin> set addr)
   \<and> (CHR '':'' \<in> set addr \<longrightarrow>
        (\<exists>ip port. ParseClientIP addr = (ip, None) \<and> addr = ip @ '':'' @ port
           \<and> CHR '':'' \<notin> set port))
   \<and> ParseClientIP ''a:b:c:80'' = (''a:b:c'', None)
   \<and> ParseClientIP ''[::1]:80'' = (''[::1]'', None)
   \<and> ParseClientIP '':80'' = ('''', None)"
proof (intro conjI impI)
  show "snd (ParseClientIP addr) \<noteq> None \<longleftrightarrow> CHR '':'' \<notin> set addr"
    using ParseClientIP_no_colon [of addr] ParseClientIP_colon [of addr]
    by (cases "CHR '':'' \<in> set addr") auto
next
  assume "CHR '':'' \<in> set addr"
  then show "\<exists>ip port. ParseClientIP addr = (ip, None) \<and> addr = ip @ '':'' @ port
     \<and> CHR '':'' \<notin> set port"
    by (rule ParseClientIP_colon)
qed (simp_all add: ParseClientIP_def)

theorem ParseClientIP_last_colon_witness:
  "CHR '':'' \<in> set ''10.0.0.5:40000''
   \<and> snd (ParseClientIP ''10.0.0.5:40000'') = None
   \<and> (\<exists>ip port. ParseClientIP ''10.0.0.5:40000'' = (ip, None)
         \<and> ''10.0.0.5:40000'' = ip @ '':'' @ port \<and> CHR '':'' \<notin> set port)
   \<and> CHR '':'' \<notin> set ''localhost''
   \<and> snd (ParseClientIP ''localhost'') \<noteq> None"
  using ParseClientIP_last_colon [of "''10.0.0.5:40000''"]
    ParseClientIP_last_colon [of "''localhost''"]
  by simp

section \<open>Properties of the HTTP layer\<close>

lemmas status_defs =
  StatusOK_def StatusBadRequest_def StatusForbidden_def StatusNotFound_def
  StatusInternalServerError_def

lemma clientIP_RemoteAddr: "clientIP s req = ParseClientIP (RemoteAddr req)"
  by (simp add: clientIP_def)

lemma RemoteAddr_ParseForm: "RemoteAddr (ParseForm req) = RemoteAddr req"
  by (simp add: ParseForm_def split: option.splits)

lemma Vars_ParseForm: "mux_Vars (ParseForm req) key = mux_Vars req key"
  by (simp add: ParseForm_def mux_Vars_def split: option.splits)

lemma clientIP_ParseForm: "clientIP s (ParseForm req) = clientIP s req"
  by (simp add: clientIP_RemoteAddr RemoteAddr_ParseForm)

lemma http_Error_fresh:
  "\<not> wroteHeader w \<Longrightarrow> writeErr w = None \<Longrightarrow>
   status (http_Error w msg code) = code
   \<and> body (http_Error w msg code) = body w @ msg @ ''\<newline>''
   \<and> sentHeader (http_Error w msg code) ''Content-Type'' = Some ''text/plain; charset=utf-8''"
  by (simp add: http_Error_def Header_Set_def WriteHeader_def Write_def Let_def)

lemma status_http_Error: "\<not> wroteHeader w \<Longrightarrow> status (http_Error w msg code) = code"
  by (simp add: http_Error_def Header_Set_def WriteHeader_def Write_def Let_def
      split: option.splits)

section \<open>The paths through the credentials handler\<close>

lemma credentialsHandler_parse_error:
  assumes "clientIP s req = (ip, Some e)"
  shows "credentialsHandler s env w req =
     \<lparr>outcome = Returned StatusInternalServerError
        (Some (Errorf (''error parsing client ip '' @ ip @ '': '' @ Error e))),
      writer = w, issued = []\<rparr>"
  using assms by (simp add: credentialsHandler_def clientIP_ParseForm Let_def)

lemma credentialsHandler_not_parse_error:
  assumes "clientIP s req = (ip, None)"
  shows "outcome (credentialsHandler s env w req)
           \<noteq> Returned StatusInternalServerError (Some (Errorf (''error parsing client ip '' @ m)))"
  using assms
  by (simp add: credentialsHandler_def clientIP_ParseForm Let_def status_defs
      split: sum.splits option.splits prod.splits)

lemma credentialsHandler_empty_role:
  assumes "clientIP s req = (ip, None)" and "findRole env ip = Inr ''''"
  shows "credentialsHandler s env w req =
     \<lparr>outcome = Returned StatusNotFound (Some (EmptyRoleError env)), writer = w, issued = []\<rparr>"
  using assms by (simp add: credentialsHandler_def clientIP_ParseForm Let_def)

lemma credentialsHandler_mismatch:
  assumes "clientIP s req = (ip, None)"
    and "findRole env ip = Inr foundRole"
    and "foundRole \<noteq> ''''"
    and "mux_Vars req ''role'' = requestedRole"
    and "requestedRole \<noteq> ''''"
    and "foundRole \<noteq> requestedRole"
  shows "credentialsHandler s env w req =
     \<lparr>outcome = Returned StatusForbidden
        (Some (Errorf (''unable to assume role '' @ requestedRole
                 @ '', role on pod specified is '' @ foundRole))),
      writer = w, issued = []\<rparr>"
  using assms by (simp add: credentialsHandler_def clientIP_ParseForm Vars_ParseForm Let_def)

lemma mismatch_reply:
  assumes "credentialsHandler s env w req =
     \<lparr>outcome = Returned StatusForbidden (Some (Errorf (want @ rest))),
      writer = w, issued = []\<rparr>"
    and "\<not> wroteHeader w" and "writeErr w = None"
  shows "status (writer (errorHandler (credentialsHandler s env) w req)) = StatusForbidden
         \<and> sublist want (body (writer (errorHandler (credentialsHandler s env) w req)))
         \<and> issued (errorHandler (credentialsHandler s env) w req) = []"
proof -
  have e: "errorHandler (credentialsHandler s env) w req =
     \<lparr>outcome = Returned StatusForbidden (Some (Errorf (want @ rest))),
      writer = http_Error w (want @ rest) StatusForbidden, issued = []\<rparr>"
    by (simp add: errorHandler_def assms(1))
  have b: "body (http_Error w (want @ rest) StatusForbidden)
             = body w @ want @ (rest @ ''\<newline>'')"
    and st: "status (http_Error w (want @ rest) StatusForbidden) = StatusForbidden"
    using http_Error_fresh [OF assms(2,3), of "want @ rest" StatusForbidden] by simp_all
  have "sublist want (body (http_Error w (want @ rest) StatusForbidden))"
    unfolding b by (rule sublist_appendI)
  then show ?thesis by (simp add: e st)
qed

section \<open>Role mismatch\<close>

text \<open>
  A path with nothing after \<^verbatim>\<open>security-credentials/\<close> is taken by the role-name
  route, which is registered first; a request the router hands to the credentials
  handler therefore names a role.
\<close>

lemma empty_segment_routed_to_roleName:
  "Router_Match buildHTTPServer_routes ''/latest/meta-data/iam/security-credentials/''
     = Some (RoleNameRoute, [(''version'', ''latest'')])"
  by (simp add: buildHTTPServer_routes_def matchExact_def matchRoleName_def credentialsPath_def)

lemma routed_credentials_role:
  assumes "Router_Match buildHTTPServer_routes path = Some (CredentialsRoute, vars)"
  shows "\<exists>version role. vars = [(''version'', version), (''role'', role)] \<and> role \<noteq> ''''"
  using assms
  by (auto simp: buildHTTPServer_routes_def matchExact_def matchRoleName_def
      matchCredentials_def matchProxy_def split: option.splits if_splits list.splits)

lemma routed_credentials_requestedRole:
  assumes "Router_Match buildHTTPServer_routes path = Some (CredentialsRoute, Vars req)"
  shows "mux_Vars req ''role'' \<noteq> ''''"
proof -
  from routed_credentials_role [OF assms] obtain version role
    where "Vars req = [(''version'', version), (''role'', role)]" and "role \<noteq> ''''"
    by blast
  then show ?thesis by (simp add: mux_Vars_def)
qed

text \<open>
  Claim C1. For every credentials request (a request whose path the router hands to the
  credentials handler, with the variables of the route) in which the role annotated on
  the calling pod resolves to a non-empty name that differs from the role segment of
  the path, the handler returns 403 with the error "unable to assume role \<open>requested\<close>,
  role on pod specified is \<open>found\<close>", so that the reply written to a fresh response
  writer has status 403 and a body containing "unable to assume role \<open>requested\<close>"; the
  credentials provider is not invoked, whatever it would have answered.
\<close>

theorem role_mismatch_forbidden:
  assumes "Router_Match buildHTTPServer_routes path = Some (CredentialsRoute, Vars req)"
    and "clientIP s req = (ip, None)"
    and "findRole env ip = Inr foundRole"
    and "foundRole \<noteq> ''''"
    and "foundRole \<noteq> mux_Vars req ''role''"
    and "\<not> wroteHeader w" and "writeErr w = None"
  shows "outcome (credentialsHandler s env w req) =
           Returned StatusForbidden
             (Some (Errorf (''unable to assume role '' @ mux_Vars req ''role''
                      @ '', role on pod specified is '' @ foundRole)))
         \<and> issued (credentialsHandler s env w req) = []
         \<and> status (writer (errorHandler (credentialsHandler s env) w req)) = StatusForbidden
         \<and> sublist (''unable to assume role '' @ mux_Vars req ''role'')
              (body (writer (errorHandler (credentialsHandler s env) w req)))
         \<and> issued (errorHandler (credentialsHandler s env) w req) = []"
proof -
  define requestedRole where "requestedRole = mux_Vars req ''role''"
  define want where "want = ''unable to assume role '' @ requestedRole"
  define rest where "rest = '', role on pod specified is '' @ foundRole"
  have ne: "requestedRole \<noteq> ''''"
    unfolding requestedRole_def by (rule routed_credentials_requestedRole [OF assms(1)])
  have v: "mux_Vars req ''role'' = requestedRole"
    by (simp add: requestedRole_def)
  have d: "foundRole \<noteq> requestedRole"
    using assms(5) by (simp add: requestedRole_def)
  have msg: "''unable to assume role '' @ requestedRole
                 @ '', role on pod specified is '' @ foundRole = want @ rest"
    by (simp add: want_def rest_def)
  have h: "credentialsHandler s env w req =
     \<lparr>outcome = Returned StatusForbidden (Some (Errorf (want @ rest))),
      writer = w, issued = []\<rparr>"
    using credentialsHandler_mismatch [OF assms(2-4) v ne d, of w] by (simp only: msg)
  note r = mismatch_reply [OF h assms(6,7)]
  have "outcome (credentialsHandler s env w req) =
           Returned StatusForbidden
             (Some (Errorf (''unable to assume role '' @ requestedRole
                      @ '', role on pod specified is '' @ foundRole)))"
    unfolding msg by (simp add: h)
  moreover have "issued (credentialsHandler s env w req) = []"
    by (simp add: h)
  moreover have "status (writer (errorHandler (credentialsHandler s env) w req))
      = StatusForbidden"
    using r by blast
  moreover have "sublist (''unable to assume role '' @ requestedRole)
                (body (writer (errorHandler (credentialsHandler s env) w req)))"
    using r unfolding want_def by blast
  moreover have "issued (errorHandler (credentialsHandler s env) w req) = []"
    using r by blast
  ultimately show ?thesis
    unfolding requestedRole_def by blast
qed

theorem role_mismatch_forbidden_witness:
  "Router_Match buildHTTPServer_routes ''/latest/meta-data/iam/security-credentials/admin''
     = Some (CredentialsRoute, Vars (scenario_request ''10.0.0.5:40000'' ''admin''))
   \<and> clientIP scenario_agent (scenario_request ''10.0.0.5:40000'' ''admin'')
       = (''10.0.0.5'', None)
   \<and> findRole scenario_env ''10.0.0.5'' = Inr ''reader''
   \<and> mux_Vars (scenario_request ''10.0.0.5:40000'' ''admin'') ''role'' = ''admin''
   \<and> \<not> wroteHeader newResponseWriter \<and> writeErr newResponseWriter = None
   \<and> outcome (credentialsHandler scenario_agent scenario_env newResponseWriter
        (scenario_request ''10.0.0.5:40000'' ''admin''))
      = Returned 403 (Some (Errorf
          ''unable to assume role admin, role on pod specified is reader''))
   \<and> issued (credentialsHandler scenario_agent scenario_env newResponseWriter
        (scenario_request ''10.0.0.5:40000'' ''admin'')) = []
   \<and> status (writer (errorHandler (credentialsHandler scenario_agent scenario_env)
        newResponseWriter (scenario_request ''10.0.0.5:40000'' ''admin''))) = 403
   \<and> sublist ''unable to assume role admin''
        (body (writer (errorHandler (credentialsHandler scenario_agent scenario_env)
           newResponseWriter (scenario_request ''10.0.0.5:40000'' ''admin''))))"
proof -
  have p: "Router_Match buildHTTPServer_routes
        ''/latest/meta-data/iam/security-credentials/admin''
     = Some (CredentialsRoute, Vars (scenario_request ''10.0.0.5:40000'' ''admin''))"
    by (simp add: buildHTTPServer_routes_def matchExact_def matchRoleName_def
        matchCredentials_def credentialsPath_def scenario_request_def)
  have c: "clientIP scenario_agent (scenario_request ''10.0.0.5:40000'' ''admin'')
      = (''10.0.0.5'', None)"
    by (simp add: clientIP_def scenario_request_def ParseClientIP_def)
  have f: "findRole scenario_env ''10.0.0.5'' = Inr ''reader''"
    by (simp add: scenario_env_def)
  have v: "mux_Vars (scenario_request ''10.0.0.5:40000'' ''admin'') ''role'' = ''admin''"
    by (simp add: mux_Vars_def scenario_request_def)
  have w: "\<not> wroteHeader newResponseWriter" "writeErr newResponseWriter = None"
    by (simp_all add: newResponseWriter_def)
  have "outcome (credentialsHandler scenario_agent scenario_env newResponseWriter
        (scenario_request ''10.0.0.5:40000'' ''admin''))
      = Returned StatusForbidden (Some (Errorf
          (''unable to assume role ''
             @ mux_Vars (scenario_request ''10.0.0.5:40000'' ''admin'') ''role''
             @ '', role on pod specified is '' @ ''reader'')))
   \<and> issued (credentialsHandler scenario_agent scenario_env newResponseWriter
        (scenario_request ''10.0.0.5:40000'' ''admin'')) = []
   \<and> status (writer (errorHandler (credentialsHandler scenario_agent scenario_env)
        newResponseWriter (scenario_request ''10.0.0.5:40000'' ''admin''))) = StatusForbidden
   \<and> sublist (''unable to assume role ''
                @ mux_Vars (scenario_request ''10.0.0.5:40000'' ''admin'') ''role'')
        (body (writer (errorHandler (credentialsHandler scenario_agent scenario_env)
           newResponseWriter (scenario_request ''10.0.0.5:40000'' ''admin''))))
   \<and> issued (errorHandler (credentialsHandler scenario_agent scenario_env)
           newResponseWriter (scenario_request ''10.0.0.5:40000'' ''admin'')) = []"
    by (rule role_mismatch_forbidden [OF p c f _ _ w]) (simp_all add: v)
  then show ?thesis
    using p c f v w by (simp add: status_defs)
qed

section \<open>Provider failure\<close>

text \<open>
  Claim C5 says that a request whose resolved role equals the requested one, and whose
  credentials provider returns an error, is answered with status 500 and a plain-text
  message. The handler builds that message from \<^verbatim>\<open>ctx.Err()\<close> and not from the error
  it was given: for the pod at \<open>10.0.0.5\<close> asking for its own role \<open>reader\<close>, with a
  provider that answers "AccessDenied" while the request's context is neither cancelled
  nor expired, \<^verbatim>\<open>ctx.Err()\<close> is nil and the handler panics; no status is written.
\<close>

theorem credentials_error_nil_context_panics:
  "clientIP scenario_agent (scenario_request ''10.0.0.5:40000'' ''reader'') = (''10.0.0.5'', None)
   \<and> findRole refusing_env ''10.0.0.5'' = Inr ''reader''
   \<and> credentialsForRole refusing_env ''reader'' = Inl (Errorf ''AccessDenied'')
   \<and> ctxErr refusing_env = None
   \<and> outcome (credentialsHandler scenario_agent refusing_env newResponseWriter
        (scenario_request ''10.0.0.5:40000'' ''reader''))
       = Panicked ''invalid memory address or nil pointer dereference''
   \<and> \<not> wroteHeader (writer (errorHandler (credentialsHandler scenario_agent refusing_env)
        newResponseWriter (scenario_request ''10.0.0.5:40000'' ''reader'')))"
  by (simp add: credentialsHandler_def clientIP_def ParseClientIP_def ParseForm_def
      scenario_env_def refusing_env_def mux_Vars_def scenario_request_def errorHandler_def
      newResponseWriter_def)

section \<open>The successful reply\<close>

text \<open>
  Claim C6 says that every successful reply to a credentials request carries the header
  \<open>Content-Type: application/json\<close> and a JSON body with the fields \<open>Code\<close>, \<open>Type\<close>,
  \<open>AccessKeyId\<close>, \<open>SecretAccessKey\<close>, \<open>Token\<close>, \<open>Expiration\<close> and \<open>LastUpdated\<close>. The
  body is as claimed. The header is set after the encoder has written the body: for the
  pod at \<open>10.0.0.5\<close> asking for its role \<open>reader\<close> the handler returns 200, the
  headers committed with the status hold no \<open>Content-Type\<close>, and \<open>application/json\<close>
  only reaches the map that \<^verbatim>\<open>w.Header()\<close> hands out, too late to be sent.
\<close>

theorem credentials_content_type_set_after_write:
  \<open>outcome (errorHandler (credentialsHandler scenario_agent scenario_env)
        newResponseWriter (scenario_request ''10.0.0.5:40000'' ''reader''))
       = Returned StatusOK None
   \<and> status (writer (errorHandler (credentialsHandler scenario_agent scenario_env)
        newResponseWriter (scenario_request ''10.0.0.5:40000'' ''reader''))) = StatusOK
   \<and> body (writer (errorHandler (credentialsHandler scenario_agent scenario_env)
        newResponseWriter (scenario_request ''10.0.0.5:40000'' ''reader'')))
       = ''{"Code":"Success","Type":"AWS-HMAC","AccessKeyId":"AKIDEXAMPLE",''
         @ ''"SecretAccessKey":"secret","Token":"token",''
         @ ''"Expiration":"2018-01-01T01:00:00Z","LastUpdated":"2018-01-01T00:00:00Z"}''
         @ ''\<newline>''
   \<and> sentHeader (writer (errorHandler (credentialsHandler scenario_agent scenario_env)
        newResponseWriter (scenario_request ''10.0.0.5:40000'' ''reader''))) ''Content-Type''
       = None
   \<and> header (writer (errorHandler (credentialsHandler scenario_agent scenario_env)
        newResponseWriter (scenario_request ''10.0.0.5:40000'' ''reader''))) ''Content-Type''
       = Some ''application/json''\<close>
  by (simp add: credentialsHandler_def clientIP_def ParseClientIP_def ParseForm_def
      scenario_env_def mux_Vars_def scenario_request_def errorHandler_def Encode_def
      json_Marshal_def quoted_def reader_credentials_def
      Header_Set_def WriteHeader_def Write_def newResponseWriter_def)

section \<open>The retry loop of the role-name handler\<close>

lemma roleNameHandler_parse_error:
  assumes "clientIP s req = (ip, Some e)"
  shows "roleNameHandler s sched w req =
     \<lparr>outcome = Returned StatusInternalServerError
        (Some (Errorf (''error parsing ip: '' @ Error e))),
      writer = w, issued = []\<rparr>"
  using assms by (simp add: roleNameHandler_def)

lemma op_empty_role: "finder s k ip = ('''', None) \<Longrightarrow> op s ip k c = (Some PodNotFound, c)"
  by (simp add: op_def)

lemma op_fails:
  "snd (finder s k ip) \<noteq> None \<or> fst (finder s k ip) = '''' \<Longrightarrow>
   \<exists>e. op s ip k c = (Some e, c)"
  by (cases "finder s k ip") (auto simp: op_def split: option.splits)

lemma op_finds:
  "finder s k ip = (role, None) \<Longrightarrow> role \<noteq> '''' \<Longrightarrow> op s ip k c = (None, c @ [role])"
  by (simp add: op_def)

text \<open>While every call finds an empty role, the loop ends with \<open>PodNotFound\<close>.\<close>

lemma Retry_all_empty:
  "(\<And>j. finder s j ip = ('''', None)) \<Longrightarrow>
   backoff_Retry (op s ip) n k c = (Some PodNotFound, c)"
  by (induction n arbitrary: k) (simp_all add: op_empty_role)

lemma lookupRole_all_empty:
  "(\<And>j. finder s j ip = ('''', None)) \<Longrightarrow>
   lookupRole s ip n = Some \<lparr>obj = None, err = Some PodNotFound\<rparr>"
  by (simp add: lookupRole_def Retry_all_empty)

lemma Retry_finds:
  assumes "finder s k ip = (role, None)" and "role \<noteq> ''''"
  shows "backoff_Retry (op s ip) n k c = (None, c @ [role])"
  using op_finds [OF assms] by (cases n) simp_all

text \<open>
  If the calls fail \<open>m\<close> times (an error, or an empty role) and the next one finds a
  role, a policy that grants \<open>m\<close> further attempts or more lets the loop reach it.
\<close>

lemma Retry_until:
  "(\<And>j. j < m \<Longrightarrow> snd (finder s (k + j) ip) \<noteq> None \<or> fst (finder s (k + j) ip) = '''') \<Longrightarrow>
   finder s (k + m) ip = (role, None) \<Longrightarrow> role \<noteq> '''' \<Longrightarrow> m \<le> n \<Longrightarrow>
   backoff_Retry (op s ip) n k c = (None, c @ [role])"
proof (induction m arbitrary: k n)
  case 0
  then show ?case by (simp add: Retry_finds)
next
  case (Suc m)
  from Suc.prems(4) obtain n' where n: "n = Suc n'" and le: "m \<le> n'"
    by (cases n) auto
  have "snd (finder s (k + 0) ip) \<noteq> None \<or> fst (finder s (k + 0) ip) = ''''"
    by (rule Suc.prems(1)) simp
  then obtain e where e: "op s ip k c = (Some e, c)"
    using op_fails [of s k ip c] by auto
  have "backoff_Retry (op s ip) n' (Suc k) c = (None, c @ [role])"
  proof (rule Suc.IH [OF _ _ Suc.prems(3) le])
    fix j assume "j < m"
    then have "Suc j < Suc m" by simp
    from Suc.prems(1) [OF this]
    show "snd (finder s (Suc k + j) ip) \<noteq> None \<or> fst (finder s (Suc k + j) ip) = ''''"
      by simp
  next
    show "finder s (Suc k + m) ip = (role, None)"
      using Suc.prems(2) by simp
  qed
  then show ?case by (simp add: n e)
qed

lemma roleNameHandler_retries_until_found:
  assumes "clientIP s req = (ip, None)"
    and "ctxDone sched = None"
    and "\<forall>j<m. snd (finder s j ip) \<noteq> None \<or> fst (finder s j ip) = ''''"
    and "finder s m ip = (role, None)" and "role \<noteq> ''''"
    and "m \<le> retries sched"
  shows "roleNameHandler s sched w req =
           \<lparr>outcome = Returned StatusOK None, writer = fst (Write w role), issued = []\<rparr>"
proof -
  have "backoff_Retry (op s ip) (retries sched) 0 [] = (None, [] @ [role])"
    using assms(3,4) by (intro Retry_until [where m = m] assms(5,6)) simp_all
  then have "lookupRole s ip (retries sched) = Some \<lparr>obj = Some role, err = None\<rparr>"
    by (simp add: lookupRole_def)
  then show ?thesis
    using assms(1,2,5) by (simp add: roleNameHandler_def)
qed

section \<open>A pod without a role\<close>

text \<open>
  Claim C7. A request whose source address is parsed and resolves to an empty role name
  (the pod carries no role annotation) is answered with 404, not 403. The credentials
  handler returns 404 with \<^verbatim>\<open>EmptyRoleError\<close> and does not invoke the provider. The
  role-name handler, whose finder yields an empty role at every attempt, returns 404
  with "pod not found for ip \<open>ip\<close>" once its retry loop has given up and its
  \<^verbatim>\<open>select\<close> has received the goroutine's answer. In both cases the status written to a
  response writer that has not yet sent its header is 404.
\<close>

theorem empty_role_not_found:
  assumes "clientIP s req = (ip, None)" and "\<not> wroteHeader w"
  shows "(findRole env ip = Inr '''' \<longrightarrow>
            outcome (credentialsHandler s env w req)
              = Returned StatusNotFound (Some (EmptyRoleError env))
          \<and> issued (credentialsHandler s env w req) = []
          \<and> status (writer (errorHandler (credentialsHandler s env) w req)) = StatusNotFound)
       \<and> ((\<forall>k. finder s k ip = ('''', None)) \<and> ctxDone sched = None \<longrightarrow>
            outcome (roleNameHandler s sched w req)
              = Returned StatusNotFound (Some (Errorf (''pod not found for ip '' @ ip)))
          \<and> status (writer (errorHandler (roleNameHandler s sched) w req)) = StatusNotFound)
       \<and> StatusNotFound \<noteq> StatusForbidden"
proof (intro conjI impI)
  assume f: "findRole env ip = Inr ''''"
  note h = credentialsHandler_empty_role [OF assms(1) f, of w]
  show "outcome (credentialsHandler s env w req)
          = Returned StatusNotFound (Some (EmptyRoleError env))"
    by (simp add: h)
  show "issued (credentialsHandler s env w req) = []"
    by (simp add: h)
  show "status (writer (errorHandler (credentialsHandler s env) w req)) = StatusNotFound"
    by (simp add: errorHandler_def h status_http_Error [OF assms(2)])
next
  assume a: "(\<forall>k. finder s k ip = ('''', None)) \<and> ctxDone sched = None"
  then have l: "lookupRole s ip (retries sched) = Some \<lparr>obj = None, err = Some PodNotFound\<rparr>"
    by (intro lookupRole_all_empty) simp
  have h: "roleNameHandler s sched w req =
     \<lparr>outcome = Returned StatusNotFound (Some (Errorf (''pod not found for ip '' @ ip))),
      writer = w, issued = []\<rparr>"
    using a assms(1) by (simp add: roleNameHandler_def l)
  show "outcome (roleNameHandler s sched w req)
              = Returned StatusNotFound (Some (Errorf (''pod not found for ip '' @ ip)))"
    by (simp add: h)
  show "status (writer (errorHandler (roleNameHandler s sched) w req)) = StatusNotFound"
    by (simp add: errorHandler_def h status_http_Error [OF assms(2)])
next
  show "StatusNotFound \<noteq> StatusForbidden" by (simp add: status_defs)
qed

theorem empty_role_not_found_witness:
  "clientIP scenario_agent (scenario_request ''10.0.0.9:40000'' ''reader'') = (''10.0.0.9'', None)
   \<and> \<not> wroteHeader newResponseWriter
   \<and> findRole scenario_env ''10.0.0.9'' = Inr ''''
   \<and> finder scenario_agent 7 ''10.0.0.9'' = ('''', None)
   \<and> outcome (credentialsHandler scenario_agent scenario_env newResponseWriter
        (scenario_request ''10.0.0.9:40000'' ''reader''))
       = Returned StatusNotFound (Some (Errorf ''empty role''))
   \<and> status (writer (errorHandler (credentialsHandler scenario_agent scenario_env)
        newResponseWriter (scenario_request ''10.0.0.9:40000'' ''reader''))) = 404
   \<and> outcome (roleNameHandler scenario_agent \<lparr>retries = 5, ctxDone = None\<rparr> newResponseWriter
        (scenario_request ''10.0.0.9:40000'' ''reader''))
       = Returned StatusNotFound (Some (Errorf ''pod not found for ip 10.0.0.9''))"
proof -
  have c: "clientIP scenario_agent (scenario_request ''10.0.0.9:40000'' ''reader'')
             = (''10.0.0.9'', None)"
    by (simp add: clientIP_def scenario_request_def ParseClientIP_def)
  have w: "\<not> wroteHeader newResponseWriter"
    by (simp add: newResponseWriter_def)
  have f: "findRole scenario_env ''10.0.0.9'' = Inr ''''"
    and e: "EmptyRoleError scenario_env = Errorf ''empty role''"
    by (simp_all add: scenario_env_def)
  have k: "\<forall>k. finder scenario_agent k ''10.0.0.9'' = ('''', None)"
    by (simp add: scenario_agent_def)
  show ?thesis
    using empty_role_not_found [OF c w, of scenario_env "\<lparr>retries = 5, ctxDone = None\<rparr>"]
      c w f e k
    by (simp add: status_defs)
qed

section \<open>A peer address without a port\<close>

text \<open>
  Claim C8. When the request's \<open>RemoteAddr\<close> holds no colon, deriving the client address
  fails, and both handlers return 500 with a message that quotes the parser's error
  ("incorrect format, expected ip:port, was: \<open>addr\<close>"); the status written to a response
  writer that has not yet sent its header is 500. When \<open>RemoteAddr\<close> holds a colon (as
  every \<open>ip:port\<close> does) the derivation succeeds with the part before the last colon,
  and the credentials handler's result is not the 500 of a failed derivation.
\<close>

theorem malformed_RemoteAddr_500:
  "(CHR '':'' \<notin> set (RemoteAddr req) \<longrightarrow>
      snd (clientIP s req) \<noteq> None
      \<and> credentialsHandler s env w req =
          \<lparr>outcome = Returned StatusInternalServerError
             (Some (Errorf (''error parsing client ip : incorrect format, expected ip:port, was: ''
                      @ RemoteAddr req))),
           writer = w, issued = []\<rparr>
      \<and> roleNameHandler s sched w req =
          \<lparr>outcome = Returned StatusInternalServerError
             (Some (Errorf (''error parsing ip: incorrect format, expected ip:port, was: ''
                      @ RemoteAddr req))),
           writer = w, issued = []\<rparr>
      \<and> (\<not> wroteHeader w \<longrightarrow>
           status (writer (errorHandler (credentialsHandler s env) w req))
             = StatusInternalServerError
           \<and> status (writer (errorHandler (roleNameHandler s sched) w req))
             = StatusInternalServerError))
   \<and> (CHR '':'' \<in> set (RemoteAddr req) \<longrightarrow>
      (\<exists>ip port. clientIP s req = (ip, None) \<and> RemoteAddr req = ip @ '':'' @ port
         \<and> CHR '':'' \<notin> set port)
      \<and> (\<forall>m. outcome (credentialsHandler s env w req)
             \<noteq> Returned StatusInternalServerError
                 (Some (Errorf (''error parsing client ip '' @ m)))))"
proof (intro conjI impI allI)
  assume n: "CHR '':'' \<notin> set (RemoteAddr req)"
  have c: "clientIP s req =
     ('''', Some (Errorf (''incorrect format, expected ip:port, was: '' @ RemoteAddr req)))"
    using ParseClientIP_no_colon [OF n] by (simp add: clientIP_RemoteAddr)
  show "snd (clientIP s req) \<noteq> None" by (simp add: c)
  show ch: "credentialsHandler s env w req =
          \<lparr>outcome = Returned StatusInternalServerError
             (Some (Errorf (''error parsing client ip : incorrect format, expected ip:port, was: ''
                      @ RemoteAddr req))),
           writer = w, issued = []\<rparr>"
    using credentialsHandler_parse_error [OF c, of env w] by simp
  show rh: "roleNameHandler s sched w req =
          \<lparr>outcome = Returned StatusInternalServerError
             (Some (Errorf (''error parsing ip: incorrect format, expected ip:port, was: ''
                      @ RemoteAddr req))),
           writer = w, issued = []\<rparr>"
    using roleNameHandler_parse_error [OF c, of sched w] by simp
  assume f: "\<not> wroteHeader w"
  show "status (writer (errorHandler (credentialsHandler s env) w req))
             = StatusInternalServerError"
    by (simp add: errorHandler_def ch status_http_Error [OF f])
  show "status (writer (errorHandler (roleNameHandler s sched) w req))
             = StatusInternalServerError"
    by (simp add: errorHandler_def rh status_http_Error [OF f])
next
  assume y: "CHR '':'' \<in> set (RemoteAddr req)"
  show "\<exists>ip port. clientIP s req = (ip, None) \<and> RemoteAddr req = ip @ '':'' @ port
         \<and> CHR '':'' \<notin> set port"
    using ParseClientIP_colon [OF y] by (simp add: clientIP_RemoteAddr)
  then obtain ip where "clientIP s req = (ip, None)" by blast
  then show "outcome (credentialsHandler s env w req)
             \<noteq> Returned StatusInternalServerError
                 (Some (Errorf (''error parsing client ip '' @ m)))" for m
    by (rule credentialsHandler_not_parse_error)
qed

theorem malformed_RemoteAddr_500_witness:
  "CHR '':'' \<notin> set (RemoteAddr (scenario_request ''10.0.0.5'' ''reader''))
   \<and> \<not> wroteHeader newResponseWriter
   \<and> outcome (credentialsHandler scenario_agent scenario_env newResponseWriter
        (scenario_request ''10.0.0.5'' ''reader''))
      = Returned 500 (Some (Errorf
          ''error parsing client ip : incorrect format, expected ip:port, was: 10.0.0.5''))
   \<and> status (writer (errorHandler (credentialsHandler scenario_agent scenario_env)
        newResponseWriter (scenario_request ''10.0.0.5'' ''reader''))) = 500
   \<and> CHR '':'' \<in> set (RemoteAddr (scenario_request ''10.0.0.5:40000'' ''reader''))
   \<and> clientIP scenario_agent (scenario_request ''10.0.0.5:40000'' ''reader'')
      = (''10.0.0.5'', None)
   \<and> outcome (credentialsHandler scenario_agent scenario_env newResponseWriter
        (scenario_request ''10.0.0.5:40000'' ''reader''))
      \<noteq> Returned StatusInternalServerError (Some (Errorf
          (''error parsing client ip '' @ '': incorrect format'')))"
proof -
  have n: "CHR '':'' \<notin> set (RemoteAddr (scenario_request ''10.0.0.5'' ''reader''))"
    and r: "RemoteAddr (scenario_request ''10.0.0.5'' ''reader'') = ''10.0.0.5''"
    and y: "CHR '':'' \<in> set (RemoteAddr (scenario_request ''10.0.0.5:40000'' ''reader''))"
    by (simp_all add: scenario_request_def)
  have w: "\<not> wroteHeader newResponseWriter"
    by (simp add: newResponseWriter_def)
  have c: "clientIP scenario_agent (scenario_request ''10.0.0.5:40000'' ''reader'')
      = (''10.0.0.5'', None)"
    by (simp add: clientIP_def scenario_request_def ParseClientIP_def)
  show ?thesis
    using malformed_RemoteAddr_500 [of "scenario_request ''10.0.0.5'' ''reader''"
        scenario_agent scenario_env newResponseWriter "\<lparr>retries = 0, ctxDone = None\<rparr>"]
      malformed_RemoteAddr_500 [of "scenario_request ''10.0.0.5:40000'' ''reader''"
        scenario_agent scenario_env newResponseWriter "\<lparr>retries = 0, ctxDone = None\<rparr>"]
      n r y w c
    by (simp add: status_defs)
qed

section \<open>The \<open>ip\<close> query parameter\<close>

text \<open>
  Claim C9 says that with \<open>AllowIPQuery\<close> set, a non-empty \<open>ip\<close> query parameter
  overrides the derivation of the source address on both handlers. The closure built by
  \<^verbatim>\<open>buildClientIP\<close> does so; the method \<^verbatim>\<open>Server.clientIP\<close>, which both handler
  methods call, does not. With the flag set, a request from \<open>127.0.0.1:51000\<close> that
  carries \<open>ip=10.0.0.5\<close> is resolved by \<^verbatim>\<open>buildClientIP\<close> to the pod's address
  \<open>10.0.0.5\<close>, but by \<^verbatim>\<open>Server.clientIP\<close> to \<open>127.0.0.1\<close>, so that both handlers look
  up the loopback address and answer 404 although the named pod has the role \<open>reader\<close>.
\<close>

theorem clientIP_ignores_ip_query:
  "AllowIPQuery (cfg debug_agent)
   \<and> Values_Get (Form (ParseForm ip_query_request)) ''ip'' = ''10.0.0.5''
   \<and> buildClientIP (cfg debug_agent) (ParseForm ip_query_request) = (''10.0.0.5'', None)
   \<and> clientIP debug_agent (ParseForm ip_query_request) = (''127.0.0.1'', None)
   \<and> outcome (credentialsHandler debug_agent scenario_env newResponseWriter ip_query_request)
       = Returned StatusNotFound (Some (EmptyRoleError scenario_env))
   \<and> outcome (roleNameHandler debug_agent \<lparr>retries = 0, ctxDone = None\<rparr> newResponseWriter
        ip_query_request)
       = Returned StatusNotFound (Some (Errorf ''pod not found for ip 127.0.0.1''))"
  by (simp add: debug_agent_def scenario_agent_def NewConfig_def ip_query_request_def
      ParseForm_def Values_Get_def buildClientIP_def clientIP_def ParseClientIP_def
      credentialsHandler_def scenario_env_def roleNameHandler_def lookupRole_def op_def)

section \<open>Where the retry lives\<close>

text \<open>
  The server's cache learns of the pod at \<open>10.0.0.5\<close> one tick after the first lookup.
  \<open>GetPodRole\<close>, called at tick 0, reports \<open>PodNotFoundError\<close> after that one lookup; it
  does not look again, although the lookup of tick 1 finds the pod.
\<close>

theorem GetPodRole_reports_first_miss:
  "FindPodForIP late_cache 0 ''10.0.0.5'' = (None, None)
   \<and> FindPodForIP late_cache 1 ''10.0.0.5'' = (Some (''p1'', ''reader''), None)
   \<and> GetPodRole late_cache 0 ''10.0.0.5'' = ((None, Some PodNotFoundError), 1)
   \<and> GetPodRole late_cache 1 ''10.0.0.5'' = ((Some \<lparr>Name = ''reader''\<rparr>, None), 2)"
  by (simp add: late_cache_def GetPodRole_def)

text \<open>
  Claim C3, amended. The server-side \<open>GetPodRole\<close> makes exactly one lookup in the pod
  cache and does not retry: it returns at once on an error of the lookup (the error
  unchanged) and on successful resolution (the role of the pod found), and a pod
  that the cache does not know at that moment is reported not-found, with
  \<open>PodNotFoundError\<close>, on that first miss; its reply depends on nothing but the cache's
  answer at the time of the call. The retry of a pod that is momentarily unknown is on
  the agent's side, in the role-name handler: while the finder yields no role and the
  back-off policy grants attempts, the handler looks again instead of reporting
  not-found, and it leaves the loop on successful resolution, returning the role with
  status 200. The elapsed-time budget of the configuration, \<open>MaxElapsedTime\<close>, is 10 s
  by default.
\<close>

theorem GetPodRole_single_lookup:
  "snd (GetPodRole k now ip) = Suc now
   \<and> (\<forall>pod e. FindPodForIP k now ip = (pod, Some e) \<longrightarrow>
         fst (GetPodRole k now ip) = (None, Some e))
   \<and> (FindPodForIP k now ip = (None, None) \<longrightarrow>
         fst (GetPodRole k now ip) = (None, Some PodNotFoundError))
   \<and> (\<forall>pod. FindPodForIP k now ip = (Some pod, None) \<longrightarrow>
         fst (GetPodRole k now ip) = (Some \<lparr>Name = PodRole k pod\<rparr>, None))
   \<and> (FindPodForIP k' now ip = FindPodForIP k now ip \<and> PodRole k' = PodRole k \<longrightarrow>
         GetPodRole k' now ip = GetPodRole k now ip)
   \<and> (clientIP s req = (ip, None) \<and> ctxDone sched = None
        \<and> (\<forall>j<m. finder s j ip = ('''', None))
        \<and> finder s m ip = (role, None) \<and> role \<noteq> '''' \<and> m \<le> retries sched \<longrightarrow>
         roleNameHandler s sched w req =
           \<lparr>outcome = Returned StatusOK None, writer = fst (Write w role), issued = []\<rparr>)
   \<and> MaxElapsedTime (NewConfig port) = 10 * 1000000000"
proof (intro conjI impI allI)
  show "snd (GetPodRole k now ip) = Suc now"
    by (simp add: GetPodRole_def split: prod.splits option.splits)
next
  fix pod e assume "FindPodForIP k now ip = (pod, Some e)"
  then show "fst (GetPodRole k now ip) = (None, Some e)"
    by (simp add: GetPodRole_def split: option.splits)
next
  assume "FindPodForIP k now ip = (None, None)"
  then show "fst (GetPodRole k now ip) = (None, Some PodNotFoundError)"
    by (simp add: GetPodRole_def)
next
  fix pod assume "FindPodForIP k now ip = (Some pod, None)"
  then show "fst (GetPodRole k now ip) = (Some \<lparr>Name = PodRole k pod\<rparr>, None)"
    by (simp add: GetPodRole_def)
next
  assume "FindPodForIP k' now ip = FindPodForIP k now ip \<and> PodRole k' = PodRole k"
  then show "GetPodRole k' now ip = GetPodRole k now ip"
    by (auto simp: GetPodRole_def split: prod.splits option.splits)
next
  assume "clientIP s req = (ip, None) \<and> ctxDone sched = None
        \<and> (\<forall>j<m. finder s j ip = ('''', None))
        \<and> finder s m ip = (role, None) \<and> role \<noteq> '''' \<and> m \<le> retries sched"
  then have "clientIP s req = (ip, None)" and "ctxDone sched = None"
    and u: "\<forall>j<m. finder s j ip = ('''', None)"
    and "finder s m ip = (role, None)" and "role \<noteq> ''''" and "m \<le> retries sched"
    by blast+
  moreover from u have "\<forall>j<m. snd (finder s j ip) \<noteq> None \<or> fst (finder s j ip) = ''''"
    by simp
  ultimately show "roleNameHandler s sched w req =
           \<lparr>outcome = Returned StatusOK None, writer = fst (Write w role), issued = []\<rparr>"
    by (intro roleNameHandler_retries_until_found [where m = m])
next
  show "MaxElapsedTime (NewConfig port) = 10 * 1000000000"
    by (simp add: NewConfig_def)
qed

theorem GetPodRole_single_lookup_witness:
  "FindPodForIP late_cache 0 ''10.0.0.5'' = (None, None)
   \<and> fst (GetPodRole late_cache 0 ''10.0.0.5'') = (None, Some PodNotFoundError)
   \<and> snd (GetPodRole late_cache 0 ''10.0.0.5'') = 1
   \<and> FindPodForIP late_cache 1 ''10.0.0.5'' = (Some (''p1'', ''reader''), None)
   \<and> fst (GetPodRole late_cache 1 ''10.0.0.5'') = (Some \<lparr>Name = ''reader''\<rparr>, None)
   \<and> clientIP late_agent (scenario_request ''10.0.0.5:40000'' '''') = (''10.0.0.5'', None)
   \<and> finder late_agent 0 ''10.0.0.5'' = ('''', None)
   \<and> finder late_agent 1 ''10.0.0.5'' = ('''', None)
   \<and> finder late_agent 2 ''10.0.0.5'' = (''reader'', None)
   \<and> roleNameHandler late_agent \<lparr>retries = 4, ctxDone = None\<rparr> newResponseWriter
        (scenario_request ''10.0.0.5:40000'' '''')
      = \<lparr>outcome = Returned StatusOK None,
         writer = fst (Write newResponseWriter ''reader''), issued = []\<rparr>"
proof -
  have a: "FindPodForIP late_cache 0 ''10.0.0.5'' = (None, None)"
    and b: "FindPodForIP late_cache 1 ''10.0.0.5'' = (Some (''p1'', ''reader''), None)"
    and p: "PodRole late_cache (''p1'', ''reader'') = ''reader''"
    by (simp_all add: late_cache_def)
  have c: "clientIP late_agent (scenario_request ''10.0.0.5:40000'' '''') = (''10.0.0.5'', None)"
    by (simp add: clientIP_def scenario_request_def ParseClientIP_def)
  have f: "finder late_agent 0 ''10.0.0.5'' = ('''', None)"
    "finder late_agent 1 ''10.0.0.5'' = ('''', None)"
    "finder late_agent 2 ''10.0.0.5'' = (''reader'', None)"
    by (simp_all add: late_agent_def)
  have g: "\<forall>j<2. finder late_agent j ''10.0.0.5'' = ('''', None)"
    by (simp add: late_agent_def)
  show ?thesis
    using GetPodRole_single_lookup [where k = late_cache and now = 0 and ip = "''10.0.0.5''"
        and k' = late_cache and s = late_agent
        and req = "scenario_request ''10.0.0.5:40000'' ''''"
        and sched = "\<lparr>retries = 4, ctxDone = None\<rparr>" and m = 2
        and role = "''reader''" and w = newResponseWriter and port = 8181]
      GetPodRole_single_lookup [where k = late_cache and now = 1 and ip = "''10.0.0.5''"
        and k' = late_cache and s = late_agent
        and req = "scenario_request ''10.0.0.5:40000'' ''''"
        and sched = "\<lparr>retries = 4, ctxDone = None\<rparr>" and m = 2
        and role = "''reader''" and w = newResponseWriter and port = 8181]
      a b p c f g
    by simp
qed

end
